theory Spec2Isabelle
  imports Complex_Main "HOL-Library.Multiset"
begin

section \<open>Data model (types.ts)\<close>

text \<open>
  The TypeScript type \<^verbatim>\<open>number\<close> is modelled by \<^typ>\<open>real\<close>: the specification speaks of
  real-valued readings, and rounding, NaN and the infinities of IEEE doubles are outside the
  model. \<^verbatim>\<open>number | null\<close> is \<^typ>\<open>real option\<close>, with \<^term>\<open>None\<close> for \<^verbatim>\<open>null\<close>.
  The development therefore states nothing about the exact position of the classifier's
  two bounds around a baseline other than 0, or about the exact value of the mean of two
  readings, which in the source are results of rounded double arithmetic. What it states
  depends on the order of the tests, the guards and the selection of records, or concerns
  the baseline 0, where the products and sums are exact, or is an evaluation at readings
  whose distance from the bounds no rounding reaches.

  Three of the source's object types share the field names \<^verbatim>\<open>hrv\<close>, \<^verbatim>\<open>sleep\<close> and
  \<^verbatim>\<open>load\<close>. The record of daily readings keeps them; the fields of \<^verbatim>\<open>Baseline\<close> carry
  the prefix \<open>base_\<close> and those of \<^verbatim>\<open>ComparisonResult\<close> the prefix \<open>cmp_\<close>.
\<close>

record DailyMetrics =
  date :: string
  hrv :: "real option"
  sleep :: "real option"
  load :: "real option"

datatype MetricComparison = Lower | Within | Higher

datatype DecisionPhase = OBSERVE | CONSIDER_ADJUSTMENT

record ComparisonResult =
  cmp_hrv :: "MetricComparison option"
  cmp_sleep :: "MetricComparison option"
  cmp_load :: "MetricComparison option"

record Baseline =
  base_hrv :: real
  base_sleep :: real
  base_load :: real

text \<open>
  Both functions throw a plain \<^verbatim>\<open>Error\<close> that carries a message. The two messages of
  the source are named after the error kinds of the specification.
\<close>

datatype error = Error string

definition EmptyDataset :: error where
  "EmptyDataset = Error ''No data available.''"

definition InsufficientHistory :: error where
  "InsufficientHistory = Error ''At least 2 days of data required.''"

section \<open>Classifier (baselineCalculator.ts, compareToBaseline)\<close>

text \<open>The default value of the parameter \<^verbatim>\<open>tolerancePercent\<close>.\<close>

definition defaultTolerancePercent :: real where
  "defaultTolerancePercent = 5"

definition compareToBaseline :: "real option \<Rightarrow> real \<Rightarrow> real \<Rightarrow> MetricComparison option" where
  "compareToBaseline value baseline tolerancePercent =
     (case value of
        None \<Rightarrow> None
      | Some v \<Rightarrow>
          (let tolerance = baseline * (tolerancePercent / 100);
               lowerBound = baseline - tolerance;
               upperBound = baseline + tolerance
           in if v < lowerBound then Some Lower
              else if v > upperBound then Some Higher
              else Some Within))"

section \<open>Baseline calculator (baselineCalculator.ts, calculateBaseline)\<close>

text \<open>
  \<^verbatim>\<open>Array.prototype.slice(start)\<close> with one argument: a negative \<^verbatim>\<open>start\<close> counts from
  the end and is clamped at the first element, a non-negative one is clamped at the length;
  the result runs from there to the end of the array.
\<close>

definition slice :: "int \<Rightarrow> 'a list \<Rightarrow> 'a list" where
  "slice start xs =
     (let len = int (length xs);
          k = (if start < 0 then max (len + start) 0 else min start len)
      in drop (nat k) xs)"

text \<open>
  \<^verbatim>\<open>Array.prototype.sort(compareFn)\<close> is a stable sort that puts \<open>a\<close> before \<open>b\<close> when
  \<open>compareFn(a, b)\<close> is negative and keeps their order when it is zero. It is modelled by
  insertion from the right, which is stable.
\<close>

fun insert_by :: "('a \<Rightarrow> 'a \<Rightarrow> real) \<Rightarrow> 'a \<Rightarrow> 'a list \<Rightarrow> 'a list" where
  "insert_by compareFn a [] = [a]"
| "insert_by compareFn a (b # bs) =
     (if compareFn a b \<le> 0 then a # b # bs else b # insert_by compareFn a bs)"

definition sort_by :: "('a \<Rightarrow> 'a \<Rightarrow> real) \<Rightarrow> 'a list \<Rightarrow> 'a list" where
  "sort_by compareFn xs = foldr (insert_by compareFn) xs []"

text \<open>
  The chain \<^verbatim>\<open>.filter((v): v is number => v !== null)\<close> keeps the readings that are present
  and narrows their type.
\<close>

definition non_null :: "'a option list \<Rightarrow> 'a list" where
  "non_null vs = map the (filter (\<lambda>v. v \<noteq> None) vs)"

text \<open>
  The local function \<^verbatim>\<open>median\<close>. Its argument is sorted by the caller. For a non-empty
  array \<open>mid\<close> is a valid index, and \<open>mid - 1\<close> is one when the length is even, so no read
  is out of range.
\<close>

definition median :: "real list \<Rightarrow> real option" where
  "median arr =
     (if length arr = 0 then None
      else (let mid = length arr div 2
            in if length arr mod 2 = 0
               then Some ((arr ! (mid - 1) + arr ! mid) / 2)
               else Some (arr ! mid)))"

text \<open>The operator \<^verbatim>\<open>??\<close>: the right operand replaces \<^verbatim>\<open>null\<close>.\<close>

definition nullish :: "'a option \<Rightarrow> 'a \<Rightarrow> 'a" where
  "nullish v d = (case v of None \<Rightarrow> d | Some x \<Rightarrow> x)"

text \<open>The records over which the medians are taken (lines 13 to 16 of the source).\<close>

definition window :: "'a list \<Rightarrow> 'a list" where
  "window metrics =
     (let recentMetrics = slice (- 14) metrics;
          count = max 7 (min 14 (int (length recentMetrics)))
      in slice (- count) recentMetrics)"

definition calculateBaseline :: "DailyMetrics list \<Rightarrow> error + Baseline" where
  "calculateBaseline metrics =
     (if length metrics = 0 then Inl EmptyDataset
      else (let values = window metrics;
                hrvValues = sort_by (\<lambda>a b. a - b) (non_null (map hrv values));
                sleepValues = sort_by (\<lambda>a b. a - b) (non_null (map sleep values));
                loadValues = sort_by (\<lambda>a b. a - b) (non_null (map load values))
            in Inr \<lparr> base_hrv = nullish (median hrvValues) 0,
                     base_sleep = nullish (median sleepValues) 0,
                     base_load = nullish (median loadValues) 0 \<rparr>))"

section \<open>Decision engine (decisionEngine.ts, determineDecisionPhase)\<close>

text \<open>The keys of \<^verbatim>\<open>ComparisonResult\<close> and the indexing \<^verbatim>\<open>comparison[metric]\<close>.\<close>

datatype MetricKey = HRV | SLEEP | LOAD

fun lookup :: "ComparisonResult \<Rightarrow> MetricKey \<Rightarrow> MetricComparison option" where
  "lookup c HRV = cmp_hrv c"
| "lookup c SLEEP = cmp_sleep c"
| "lookup c LOAD = cmp_load c"

definition metricsToCheck :: "MetricKey list" where
  "metricsToCheck = [HRV, SLEEP, LOAD]"

text \<open>The result object of \<^verbatim>\<open>determineDecisionPhase\<close>.\<close>

record Decision =
  phase :: DecisionPhase
  comparison :: ComparisonResult
  reason :: string

text \<open>
  A template literal renders the count with \<^verbatim>\<open>Number.prototype.toString\<close>; the count is
  the length of an array, a natural number, printed in decimal.
\<close>

fun digits :: "nat \<Rightarrow> string" where
  "digits n = (if n < 10 then [char_of (48 + n)]
               else digits (n div 10) @ [char_of (48 + n mod 10)])"

declare digits.simps [simp del]

text \<open>The comparison of one day's record with the baseline (lines 29 to 39).\<close>

definition compareDay :: "DailyMetrics \<Rightarrow> Baseline \<Rightarrow> ComparisonResult" where
  "compareDay day baseline =
     \<lparr> cmp_hrv = compareToBaseline (hrv day) (base_hrv baseline) defaultTolerancePercent,
       cmp_sleep = compareToBaseline (sleep day) (base_sleep baseline) defaultTolerancePercent,
       cmp_load = compareToBaseline (load day) (base_load baseline) defaultTolerancePercent \<rparr>"

text \<open>The two filters over \<^verbatim>\<open>metricsToCheck\<close> (lines 46 to 61).\<close>

definition lowerMetrics :: "ComparisonResult \<Rightarrow> ComparisonResult \<Rightarrow> MetricKey list" where
  "lowerMetrics todayComparison yesterdayComparison =
     filter (\<lambda>metric.
        lookup todayComparison metric \<noteq> None \<and>
        lookup yesterdayComparison metric \<noteq> None \<and>
        lookup todayComparison metric = Some Lower \<and>
        lookup yesterdayComparison metric = Some Lower) metricsToCheck"

definition higherMetrics :: "ComparisonResult \<Rightarrow> ComparisonResult \<Rightarrow> MetricKey list" where
  "higherMetrics todayComparison yesterdayComparison =
     filter (\<lambda>metric.
        lookup todayComparison metric \<noteq> None \<and>
        lookup yesterdayComparison metric \<noteq> None \<and>
        lookup todayComparison metric = Some Higher \<and>
        lookup yesterdayComparison metric = Some Higher) metricsToCheck"

definition consecutiveLower :: "ComparisonResult \<Rightarrow> ComparisonResult \<Rightarrow> nat" where
  "consecutiveLower todayComparison yesterdayComparison =
     length (lowerMetrics todayComparison yesterdayComparison)"

definition consecutiveHigher :: "ComparisonResult \<Rightarrow> ComparisonResult \<Rightarrow> nat" where
  "consecutiveHigher todayComparison yesterdayComparison =
     length (higherMetrics todayComparison yesterdayComparison)"

text \<open>The choice of phase and reason from the two counts (lines 64 to 86).\<close>

datatype Direction = DirLower | DirHigher

definition decide :: "nat \<Rightarrow> nat \<Rightarrow> ComparisonResult \<Rightarrow> Decision" where
  "decide nLower nHigher todayComparison =
     (if nLower \<ge> 2 \<or> nHigher \<ge> 2
      then (let direction = (if nLower \<ge> 2 then DirLower else DirHigher);
                count = (if direction = DirLower then nLower else nHigher);
                reason =
                  (if direction = DirLower
                   then digits count @ '' recovery signals have been outside baseline for 2 consecutive days.''
                   else digits count @ '' load signals have been outside baseline for 2 consecutive days.'')
            in \<lparr> phase = CONSIDER_ADJUSTMENT, comparison = todayComparison, reason = reason \<rparr>)
      else \<lparr> phase = OBSERVE, comparison = todayComparison,
             reason = ''Observing current state.'' \<rparr>)"

text \<open>
  The two records read are \<^verbatim>\<open>metrics[metrics.length - 1]\<close> and
  \<^verbatim>\<open>metrics[metrics.length - 2]\<close>; both indices are in range after the length check. A
  failure of \<^verbatim>\<open>calculateBaseline\<close> would propagate to the caller.
\<close>

definition determineDecisionPhase :: "DailyMetrics list \<Rightarrow> error + Decision" where
  "determineDecisionPhase metrics =
     (if length metrics < 2 then Inl InsufficientHistory
      else (case calculateBaseline metrics of
              Inl e \<Rightarrow> Inl e
            | Inr baseline \<Rightarrow>
                (let today = metrics ! (length metrics - 1);
                     yesterday = metrics ! (length metrics - 2);
                     todayComparison = compareDay today baseline;
                     yesterdayComparison = compareDay yesterday baseline
                 in Inr (decide (consecutiveLower todayComparison yesterdayComparison)
                                (consecutiveHigher todayComparison yesterdayComparison)
                                todayComparison))))"

section \<open>Mock data (mockDailyMetrics)\<close>

definition mk :: "string \<Rightarrow> real \<Rightarrow> real \<Rightarrow> real \<Rightarrow> DailyMetrics" where
  "mk d h s l = \<lparr> date = d, hrv = Some h, sleep = Some s, load = Some l \<rparr>"

definition mockDailyMetrics :: "DailyMetrics list" where
  "mockDailyMetrics =
     [ mk ''2024-01-01'' 45 7.5 12.5,
       mk ''2024-01-02'' 48 8.0 14.2,
       mk ''2024-01-03'' 46 7.8 13.8,
       mk ''2024-01-04'' 50 8.2 11.5,
       mk ''2024-01-05'' 47 7.9 15.1,
       mk ''2024-01-06'' 49 8.1 13.2,
       mk ''2024-01-07'' 48 8.0 14.0,
       mk ''2024-01-08'' 46 7.7 12.8,
       mk ''2024-01-09'' 51 8.3 11.0,
       mk ''2024-01-10'' 47 7.6 14.5,
       mk ''2024-01-11'' 42 7.2 16.0,
       mk ''2024-01-12'' 40 7.0 16.5,
       mk ''2024-01-13'' 38 6.8 17.0 ]"

section \<open>Notions of the specification\<close>


definition present :: "'a option list \<Rightarrow> 'a list" where
  "present vs = [v. Some v \<leftarrow> vs]"

definition statistical_median :: "real list \<Rightarrow> real" where
  "statistical_median vs =
     (let s = sort vs; n = length s
      in if n = 0 then 0
         else if odd n then s ! ((n - 1) div 2)
         else (s ! (n div 2 - 1) + s ! (n div 2)) / 2)"

text \<open>
  The reading and the baseline of one metric, and the verdict of one metric on one day
  against a baseline with the default tolerance of 5 percent.
\<close>

fun reading :: "MetricKey \<Rightarrow> DailyMetrics \<Rightarrow> real option" where
  "reading HRV day = hrv day"
| "reading SLEEP day = sleep day"
| "reading LOAD day = load day"

fun baseline_of :: "MetricKey \<Rightarrow> Baseline \<Rightarrow> real" where
  "baseline_of HRV b = base_hrv b"
| "baseline_of SLEEP b = base_sleep b"
| "baseline_of LOAD b = base_load b"

definition verdict :: "MetricKey \<Rightarrow> DailyMetrics \<Rightarrow> Baseline \<Rightarrow> MetricComparison option" where
  "verdict m day b = compareToBaseline (reading m day) (baseline_of m b) 5"

text \<open>
  The final choice of the decision engine with the higher count tested first, for
  comparison with the order of the source.
\<close>

definition decideHigherFirst :: "nat \<Rightarrow> nat \<Rightarrow> ComparisonResult \<Rightarrow> Decision" where
  "decideHigherFirst nLower nHigher todayComparison =
     (if nHigher \<ge> 2 \<or> nLower \<ge> 2
      then (let direction = (if nHigher \<ge> 2 then DirHigher else DirLower);
                count = (if direction = DirLower then nLower else nHigher);
                reason =
                  (if direction = DirLower
                   then digits count @ '' recovery signals have been outside baseline for 2 consecutive days.''
                   else digits count @ '' load signals have been outside baseline for 2 consecutive days.'')
            in \<lparr> phase = CONSIDER_ADJUSTMENT, comparison = todayComparison, reason = reason \<rparr>)
      else \<lparr> phase = OBSERVE, comparison = todayComparison,
             reason = ''Observing current state.'' \<rparr>)"

section \<open>Properties of the classifier\<close>

lemma compareToBaseline_None [simp]: "compareToBaseline None b p = None"
  by (simp add: compareToBaseline_def)

lemma compareToBaseline_Some:
  "compareToBaseline (Some x) b p =
     Some (if x < b - b * p / 100 then Lower
           else if x > b + b * p / 100 then Higher
           else Within)"
  by (simp add: compareToBaseline_def Let_def)

text \<open>
  Claim C9, as stated, fails for the reading 0: against the baseline 0 the band is the
  single point 0, and the reading 0 lies in it.
\<close>

theorem zero_baseline_counterexample:
  "compareToBaseline (Some 0) 0 defaultTolerancePercent = Some Within \<and>
   compareToBaseline (Some 0) 0 defaultTolerancePercent \<noteq> Some Higher"
  by (simp add: compareToBaseline_Some defaultTolerancePercent_def)

text \<open>
  Claim C9, amended: against a baseline of 0 and the default tolerance of 5 percent, every
  reading greater than 0 classifies as higher; the reading 0 classifies as within and a
  reading below 0 as lower.
\<close>

theorem zero_baseline_classifies:
  "compareToBaseline (Some x) 0 defaultTolerancePercent =
     Some (if x < 0 then Lower else if x > 0 then Higher else Within)"
  by (simp add: compareToBaseline_Some defaultTolerancePercent_def)

theorem zero_baseline_classifies_witness:
  "compareToBaseline (Some 38) 0 defaultTolerancePercent = Some Higher"
  using zero_baseline_classifies [of 38]
  by simp

section \<open>Properties of the baseline calculator\<close>

subsection \<open>The window\<close>

lemma slice_neg: "0 < k \<Longrightarrow> slice (- int k) xs = drop (length xs - k) xs"
  by (simp add: slice_def Let_def nat_diff_distrib' max_def)

lemma window_drop: "window xs = drop (length xs - min 14 (length xs)) xs"
proof -
  define r where "r = drop (length xs - 14) xs"
  have a: "slice (- 14) xs = r"
    using slice_neg [of 14 xs] by (simp add: r_def)
  have len: "length r \<le> 14"
    by (simp add: r_def)
  define c where "c = max 7 (min 14 (length r))"
  have c: "max 7 (min 14 (int (length r))) = int c"
    by (simp add: c_def)
  have "0 < c" and "length r \<le> c"
    using len by (simp_all add: c_def)
  then have b: "slice (- int c) r = r"
    using slice_neg [of c r] by simp
  have "window xs = r"
    by (simp add: window_def Let_def a c b)
  moreover have "length xs - min 14 (length xs) = length xs - 14"
    by simp
  ultimately show ?thesis
    by (simp add: r_def)
qed



subsection \<open>The median\<close>

lemma insert_by_diff: "insert_by (\<lambda>a b. a - b) (x::real) xs = insort x xs"
  by (induction xs) auto

lemma sort_by_diff: "sort_by (\<lambda>a b. a - b) (xs::real list) = sort xs"
  by (induction xs) (auto simp: sort_by_def insert_by_diff)

lemma non_null_present: "non_null vs = present vs"
  by (induction vs) (auto simp: non_null_def present_def)

lemma median_statistical:
  "nullish (median (sort_by (\<lambda>a b. a - b) vs)) 0 = statistical_median vs"
proof -
  define s where "s = sort vs"
  define n where "n = length s"
  have sb: "sort_by (\<lambda>a b. a - b) vs = s"
    by (simp add: s_def sort_by_diff)
  consider "n = 0" | "n \<noteq> 0" "even n" | "n \<noteq> 0" "odd n"
    by blast
  then show ?thesis
  proof cases
    case 1
    then show ?thesis
      unfolding sb statistical_median_def s_def [symmetric] Let_def n_def [symmetric]
        median_def nullish_def
      by simp
  next
    case 2
    then have "n mod 2 = 0" by presburger
    with 2 show ?thesis
      unfolding sb statistical_median_def s_def [symmetric] Let_def n_def [symmetric]
        median_def nullish_def
      by simp
  next
    case 3
    then have "n mod 2 \<noteq> 0" and "(n - 1) div 2 = n div 2" by presburger+
    with 3 show ?thesis
      unfolding sb statistical_median_def s_def [symmetric] Let_def n_def [symmetric]
        median_def nullish_def
      by simp
  qed
qed

lemma calculateBaseline_Inr:
  "metrics \<noteq> [] \<Longrightarrow>
   calculateBaseline metrics =
     Inr \<lparr> base_hrv = statistical_median (present (map hrv (window metrics))),
           base_sleep = statistical_median (present (map sleep (window metrics))),
           base_load = statistical_median (present (map load (window metrics))) \<rparr>"
  by (simp add: calculateBaseline_def Let_def median_statistical non_null_present)

section \<open>Properties of the decision engine\<close>

lemma determineDecisionPhase_Inr:
  assumes "2 \<le> length metrics"
  shows "\<exists>b. calculateBaseline metrics = Inr b \<and>
     determineDecisionPhase metrics =
       Inr (decide
             (consecutiveLower (compareDay (last metrics) b)
                (compareDay (metrics ! (length metrics - 2)) b))
             (consecutiveHigher (compareDay (last metrics) b)
                (compareDay (metrics ! (length metrics - 2)) b))
             (compareDay (last metrics) b))"
proof -
  from assms have ne: "metrics \<noteq> []" by auto
  then obtain b where b: "calculateBaseline metrics = Inr b"
    using calculateBaseline_Inr by blast
  from ne have "metrics ! (length metrics - 1) = last metrics"
    by (simp add: last_conv_nth)
  with assms b show ?thesis
    by (simp add: determineDecisionPhase_def Let_def)
qed

text \<open>
  Claim C8: \<^verbatim>\<open>calculateBaseline\<close> fails, with the empty-dataset error, exactly on the empty
  input, and \<^verbatim>\<open>determineDecisionPhase\<close> fails, with the insufficient-history error,
  exactly on inputs of fewer than 2 records; on every other input each returns a result.
\<close>

theorem errors_exactly:
  "(calculateBaseline metrics = Inl EmptyDataset \<longleftrightarrow> length metrics = 0) \<and>
   ((\<exists>e. calculateBaseline metrics = Inl e) \<longleftrightarrow> length metrics = 0) \<and>
   ((\<exists>b. calculateBaseline metrics = Inr b) \<longleftrightarrow> length metrics \<noteq> 0) \<and>
   (determineDecisionPhase metrics = Inl InsufficientHistory \<longleftrightarrow> length metrics < 2) \<and>
   ((\<exists>e. determineDecisionPhase metrics = Inl e) \<longleftrightarrow> length metrics < 2) \<and>
   ((\<exists>d. determineDecisionPhase metrics = Inr d) \<longleftrightarrow> 2 \<le> length metrics)"
proof -
  have cb: "calculateBaseline metrics = Inl EmptyDataset" if "length metrics = 0"
    using that by (simp add: calculateBaseline_def)
  have cr: "\<exists>b. calculateBaseline metrics = Inr b" if "length metrics \<noteq> 0"
    using that calculateBaseline_Inr [of metrics] by auto
  have db: "determineDecisionPhase metrics = Inl InsufficientHistory" if "length metrics < 2"
    using that by (simp add: determineDecisionPhase_def)
  have dr: "\<exists>d. determineDecisionPhase metrics = Inr d" if "2 \<le> length metrics"
    using determineDecisionPhase_Inr [OF that] by blast
  show ?thesis
  proof (intro conjI)
    show "calculateBaseline metrics = Inl EmptyDataset \<longleftrightarrow> length metrics = 0"
      using cb cr by (cases "length metrics = 0") auto
    show "(\<exists>e. calculateBaseline metrics = Inl e) \<longleftrightarrow> length metrics = 0"
      using cb cr by (cases "length metrics = 0") auto
    show "(\<exists>b. calculateBaseline metrics = Inr b) \<longleftrightarrow> length metrics \<noteq> 0"
      using cb cr by (cases "length metrics = 0") auto
    show "determineDecisionPhase metrics = Inl InsufficientHistory \<longleftrightarrow> length metrics < 2"
      using db dr by (cases "length metrics < 2") auto
    show "(\<exists>e. determineDecisionPhase metrics = Inl e) \<longleftrightarrow> length metrics < 2"
      using db dr by (cases "length metrics < 2") auto
    show "(\<exists>d. determineDecisionPhase metrics = Inr d) \<longleftrightarrow> 2 \<le> length metrics"
      using db dr by (cases "length metrics < 2") auto
  qed
qed

theorem errors_exactly_witness:
  "(\<exists>d. determineDecisionPhase
          [\<lparr> date = ''2024-01-01'', hrv = Some 45, sleep = None, load = Some 12 \<rparr>,
           \<lparr> date = ''2024-01-02'', hrv = Some 48, sleep = None, load = Some 14 \<rparr>] = Inr d) \<and>
   (\<exists>b. calculateBaseline
          [\<lparr> date = ''2024-01-01'', hrv = Some 45, sleep = None, load = Some 12 \<rparr>,
           \<lparr> date = ''2024-01-02'', hrv = Some 48, sleep = None, load = Some 14 \<rparr>] = Inr b)"
  using errors_exactly
    [of "[\<lparr> date = ''2024-01-01'', hrv = Some 45, sleep = None, load = Some 12 \<rparr>,
          \<lparr> date = ''2024-01-02'', hrv = Some 48, sleep = None, load = Some 14 \<rparr>]"]
  by simp

lemma lookup_compareDay: "lookup (compareDay day b) m = verdict m day b"
  by (cases m) (simp_all add: compareDay_def verdict_def defaultTolerancePercent_def)

lemma metricsToCheck_all: "set metricsToCheck = UNIV" "distinct metricsToCheck"
proof -
  have "m \<in> set metricsToCheck" for m
    by (cases m) (simp_all add: metricsToCheck_def)
  then show "set metricsToCheck = UNIV" by blast
  show "distinct metricsToCheck" by (simp add: metricsToCheck_def)
qed

lemma mem_lowerMetrics:
  "m \<in> set (lowerMetrics tc yc) \<longleftrightarrow> lookup tc m = Some Lower \<and> lookup yc m = Some Lower"
  by (auto simp: lowerMetrics_def metricsToCheck_all)

lemma mem_higherMetrics:
  "m \<in> set (higherMetrics tc yc) \<longleftrightarrow> lookup tc m = Some Higher \<and> lookup yc m = Some Higher"
  by (auto simp: higherMetrics_def metricsToCheck_all)

lemma consecutiveLower_card:
  "consecutiveLower tc yc = card {m. lookup tc m = Some Lower \<and> lookup yc m = Some Lower}"
proof -
  have "distinct (lowerMetrics tc yc)"
    by (simp add: lowerMetrics_def metricsToCheck_all)
  then have "length (lowerMetrics tc yc) = card (set (lowerMetrics tc yc))"
    by (simp add: distinct_card)
  also have "set (lowerMetrics tc yc) = {m. lookup tc m = Some Lower \<and> lookup yc m = Some Lower}"
    using mem_lowerMetrics by blast
  finally show ?thesis by (simp add: consecutiveLower_def)
qed

lemma consecutiveHigher_card:
  "consecutiveHigher tc yc = card {m. lookup tc m = Some Higher \<and> lookup yc m = Some Higher}"
proof -
  have "distinct (higherMetrics tc yc)"
    by (simp add: higherMetrics_def metricsToCheck_all)
  then have "length (higherMetrics tc yc) = card (set (higherMetrics tc yc))"
    by (simp add: distinct_card)
  also have "set (higherMetrics tc yc) = {m. lookup tc m = Some Higher \<and> lookup yc m = Some Higher}"
    using mem_higherMetrics by blast
  finally show ?thesis by (simp add: consecutiveHigher_def)
qed

lemma filter_exclusive_length:
  "(\<And>x. P x \<Longrightarrow> \<not> Q x) \<Longrightarrow> length (filter P xs) + length (filter Q xs) \<le> length xs"
  by (induction xs) auto

lemma lower_higher_disjoint: "set (lowerMetrics tc yc) \<inter> set (higherMetrics tc yc) = {}"
  using mem_lowerMetrics mem_higherMetrics by fastforce

lemma counts_le_3: "consecutiveLower tc yc + consecutiveHigher tc yc \<le> 3"
proof -
  have "length (lowerMetrics tc yc) + length (higherMetrics tc yc) \<le> length metricsToCheck"
    unfolding lowerMetrics_def higherMetrics_def
    by (rule filter_exclusive_length) auto
  then show ?thesis
    by (simp add: consecutiveLower_def consecutiveHigher_def metricsToCheck_def)
qed

lemma digits_small: "digits 2 = ''2''" "digits 3 = ''3''"
  by code_simp+

lemma digits_Suc: "digits (Suc (Suc 0)) = ''2''" "digits (Suc (Suc (Suc 0))) = ''3''"
  using digits_small by (simp_all add: numeral_2_eq_2 numeral_3_eq_3)

lemma decide_lower:
  "2 \<le> nLower \<Longrightarrow>
   decide nLower nHigher tc =
     \<lparr> phase = CONSIDER_ADJUSTMENT, comparison = tc,
       reason = digits nLower @ '' recovery signals have been outside baseline for 2 consecutive days.'' \<rparr>"
  by (simp add: decide_def)

lemma decide_higher:
  "nLower < 2 \<Longrightarrow> 2 \<le> nHigher \<Longrightarrow>
   decide nLower nHigher tc =
     \<lparr> phase = CONSIDER_ADJUSTMENT, comparison = tc,
       reason = digits nHigher @ '' load signals have been outside baseline for 2 consecutive days.'' \<rparr>"
  by (simp add: decide_def)

lemma decide_observe:
  "nLower < 2 \<Longrightarrow> nHigher < 2 \<Longrightarrow>
   decide nLower nHigher tc =
     \<lparr> phase = OBSERVE, comparison = tc, reason = ''Observing current state.'' \<rparr>"
  by (simp add: decide_def)

lemma decide_order:
  "\<not> (2 \<le> nLower \<and> 2 \<le> nHigher) \<Longrightarrow> decideHigherFirst nLower nHigher tc = decide nLower nHigher tc"
  by (auto simp: decide_def decideHigherFirst_def)


lemma card_lower_verdict:
  "card {m. verdict m today b = Some Lower \<and> verdict m yesterday b = Some Lower} =
   consecutiveLower (compareDay today b) (compareDay yesterday b)"
  by (simp add: consecutiveLower_card lookup_compareDay)

lemma card_higher_verdict:
  "card {m. verdict m today b = Some Higher \<and> verdict m yesterday b = Some Higher} =
   consecutiveHigher (compareDay today b) (compareDay yesterday b)"
  by (simp add: consecutiveHigher_card lookup_compareDay)

lemma compareDay_verdicts:
  "compareDay day b =
     \<lparr> cmp_hrv = compareToBaseline (hrv day) (base_hrv b) 5,
       cmp_sleep = compareToBaseline (sleep day) (base_sleep b) 5,
       cmp_load = compareToBaseline (load day) (base_load b) 5 \<rparr>"
  by (simp add: compareDay_def defaultTolerancePercent_def)

lemma digits_two_three:
  "2 \<le> n \<Longrightarrow> n \<le> 3 \<Longrightarrow> digits n = (if n = 2 then ''2'' else ''3'')"
proof -
  assume "2 \<le> n" and "n \<le> 3"
  then have "n = 2 \<or> n = 3" by arith
  then show ?thesis using digits_small by auto
qed

text \<open>
  Claim C1: for an input of at least 2 records, with the two counts taken over the
  verdicts of the last and the last-but-one record against the baseline of the whole
  input, the phase is \<open>CONSIDER_ADJUSTMENT\<close> exactly when the consecutive-lower count or
  the consecutive-higher count is at least 2; the reason is the lower count, printed as
  2 or 3, with the recovery wording when that count is at least 2, the higher count with
  the load wording when only the higher count is, and the fixed observing text otherwise;
  and the comparison returned is the classifier's verdict on each of the three readings
  of the last record.
\<close>

theorem phase_and_reason:
  assumes "2 \<le> length metrics"
  shows "\<exists>b d. calculateBaseline metrics = Inr b \<and> determineDecisionPhase metrics = Inr d \<and>
    (let today = last metrics;
         yesterday = metrics ! (length metrics - 2);
         nLower = card {m. verdict m today b = Some Lower \<and> verdict m yesterday b = Some Lower};
         nHigher = card {m. verdict m today b = Some Higher \<and> verdict m yesterday b = Some Higher}
     in (phase d = CONSIDER_ADJUSTMENT \<longleftrightarrow> 2 \<le> nLower \<or> 2 \<le> nHigher) \<and>
        (2 \<le> nLower \<longrightarrow>
           nLower \<le> 3 \<and>
           reason d = (if nLower = 2 then ''2'' else ''3'') @
             '' recovery signals have been outside baseline for 2 consecutive days.'') \<and>
        (nLower < 2 \<and> 2 \<le> nHigher \<longrightarrow>
           nHigher \<le> 3 \<and>
           reason d = (if nHigher = 2 then ''2'' else ''3'') @
             '' load signals have been outside baseline for 2 consecutive days.'') \<and>
        (nLower < 2 \<and> nHigher < 2 \<longrightarrow>
           phase d = OBSERVE \<and> reason d = ''Observing current state.'') \<and>
        comparison d =
          \<lparr> cmp_hrv = compareToBaseline (hrv today) (base_hrv b) 5,
            cmp_sleep = compareToBaseline (sleep today) (base_sleep b) 5,
            cmp_load = compareToBaseline (load today) (base_load b) 5 \<rparr>)"
proof -
  obtain b where b: "calculateBaseline metrics = Inr b"
    and d: "determineDecisionPhase metrics =
       Inr (decide
             (consecutiveLower (compareDay (last metrics) b)
                (compareDay (metrics ! (length metrics - 2)) b))
             (consecutiveHigher (compareDay (last metrics) b)
                (compareDay (metrics ! (length metrics - 2)) b))
             (compareDay (last metrics) b))"
    using determineDecisionPhase_Inr [OF assms] by blast
  let ?today = "last metrics"
  let ?yesterday = "metrics ! (length metrics - 2)"
  let ?tc = "compareDay ?today b"
  let ?nL = "card {m. verdict m ?today b = Some Lower \<and> verdict m ?yesterday b = Some Lower}"
  let ?nH = "card {m. verdict m ?today b = Some Higher \<and> verdict m ?yesterday b = Some Higher}"
  have d': "determineDecisionPhase metrics = Inr (decide ?nL ?nH ?tc)"
    unfolding card_lower_verdict card_higher_verdict by (rule d)
  have le: "?nL + ?nH \<le> 3"
    unfolding card_lower_verdict card_higher_verdict by (rule counts_le_3)
  have p: "phase (decide ?nL ?nH ?tc) = CONSIDER_ADJUSTMENT \<longleftrightarrow> 2 \<le> ?nL \<or> 2 \<le> ?nH"
    by (simp add: decide_def Let_def)
  have l: "?nL \<le> 3 \<and> reason (decide ?nL ?nH ?tc) = (if ?nL = 2 then ''2'' else ''3'') @
      '' recovery signals have been outside baseline for 2 consecutive days.''" if "2 \<le> ?nL"
  proof -
    from le have "?nL \<le> 3" by arith
    with that show ?thesis
      by (simp add: decide_lower digits_two_three)
  qed
  have h: "?nH \<le> 3 \<and> reason (decide ?nL ?nH ?tc) = (if ?nH = 2 then ''2'' else ''3'') @
      '' load signals have been outside baseline for 2 consecutive days.''"
    if "?nL < 2" "2 \<le> ?nH"
  proof -
    from le have "?nH \<le> 3" by arith
    with that show ?thesis
      by (simp add: decide_higher digits_two_three)
  qed
  have ob: "phase (decide ?nL ?nH ?tc) = OBSERVE \<and>
      reason (decide ?nL ?nH ?tc) = ''Observing current state.''" if "?nL < 2" "?nH < 2"
    using that by (simp add: decide_observe)
  have c: "comparison (decide ?nL ?nH ?tc) =
      \<lparr> cmp_hrv = compareToBaseline (hrv ?today) (base_hrv b) 5,
        cmp_sleep = compareToBaseline (sleep ?today) (base_sleep b) 5,
        cmp_load = compareToBaseline (load ?today) (base_load b) 5 \<rparr>"
    by (simp add: decide_def Let_def compareDay_verdicts)
  show ?thesis
    unfolding Let_def
    apply (rule exI [of _ b])
    apply (rule exI [of _ "decide ?nL ?nH ?tc"])
    using b d' p l h ob c by blast
qed

text \<open>
  Claim C2: for an input of at least 2 records and each metric, the metric is counted as
  consecutive-lower exactly when its verdicts of today and of yesterday, both taken against
  the one baseline of the whole input, are present and equal to lower, and likewise for
  higher; a metric with an absent verdict on either day is in neither count; the two counts
  are the numbers of such metrics, and they are the counts the decision is taken from.
\<close>

theorem trend_rule:
  assumes "2 \<le> length metrics"
  shows "\<exists>b. calculateBaseline metrics = Inr b \<and>
    (let today = last metrics;
         yesterday = metrics ! (length metrics - 2);
         todayComparison = compareDay today b;
         yesterdayComparison = compareDay yesterday b
     in (\<forall>m. m \<in> set (lowerMetrics todayComparison yesterdayComparison) \<longleftrightarrow>
               verdict m today b = Some Lower \<and> verdict m yesterday b = Some Lower) \<and>
        (\<forall>m. m \<in> set (higherMetrics todayComparison yesterdayComparison) \<longleftrightarrow>
               verdict m today b = Some Higher \<and> verdict m yesterday b = Some Higher) \<and>
        (\<forall>m. verdict m today b = None \<or> verdict m yesterday b = None \<longrightarrow>
               m \<notin> set (lowerMetrics todayComparison yesterdayComparison) \<and>
               m \<notin> set (higherMetrics todayComparison yesterdayComparison)) \<and>
        consecutiveLower todayComparison yesterdayComparison =
          card {m. verdict m today b = Some Lower \<and> verdict m yesterday b = Some Lower} \<and>
        consecutiveHigher todayComparison yesterdayComparison =
          card {m. verdict m today b = Some Higher \<and> verdict m yesterday b = Some Higher} \<and>
        determineDecisionPhase metrics =
          Inr (decide (consecutiveLower todayComparison yesterdayComparison)
                      (consecutiveHigher todayComparison yesterdayComparison)
                      todayComparison))"
proof -
  obtain b where b: "calculateBaseline metrics = Inr b"
    and d: "determineDecisionPhase metrics =
       Inr (decide
             (consecutiveLower (compareDay (last metrics) b)
                (compareDay (metrics ! (length metrics - 2)) b))
             (consecutiveHigher (compareDay (last metrics) b)
                (compareDay (metrics ! (length metrics - 2)) b))
             (compareDay (last metrics) b))"
    using determineDecisionPhase_Inr [OF assms] by blast
  show ?thesis
    unfolding Let_def
    by (rule exI [of _ b])
      (simp add: b d mem_lowerMetrics mem_higherMetrics consecutiveLower_card
        consecutiveHigher_card lookup_compareDay)
qed



text \<open>
  Claim C10: for an input of at least 2 records the metrics counted as consecutive-lower
  and those counted as consecutive-higher are disjoint, the two counts add up to at most 3,
  they are never both at least 2, and the decision is the same when the higher count is
  tested first.
\<close>

theorem counts_exclusive:
  assumes "2 \<le> length metrics"
  shows "\<exists>b. calculateBaseline metrics = Inr b \<and>
    (let todayComparison = compareDay (last metrics) b;
         yesterdayComparison = compareDay (metrics ! (length metrics - 2)) b;
         nLower = consecutiveLower todayComparison yesterdayComparison;
         nHigher = consecutiveHigher todayComparison yesterdayComparison
     in set (lowerMetrics todayComparison yesterdayComparison) \<inter>
          set (higherMetrics todayComparison yesterdayComparison) = {} \<and>
        nLower + nHigher \<le> 3 \<and>
        \<not> (2 \<le> nLower \<and> 2 \<le> nHigher) \<and>
        determineDecisionPhase metrics = Inr (decide nLower nHigher todayComparison) \<and>
        determineDecisionPhase metrics = Inr (decideHigherFirst nLower nHigher todayComparison))"
proof -
  obtain b where b: "calculateBaseline metrics = Inr b"
    and d: "determineDecisionPhase metrics =
       Inr (decide
             (consecutiveLower (compareDay (last metrics) b)
                (compareDay (metrics ! (length metrics - 2)) b))
             (consecutiveHigher (compareDay (last metrics) b)
                (compareDay (metrics ! (length metrics - 2)) b))
             (compareDay (last metrics) b))"
    using determineDecisionPhase_Inr [OF assms] by blast
  let ?tc = "compareDay (last metrics) b"
  let ?yc = "compareDay (metrics ! (length metrics - 2)) b"
  have le: "consecutiveLower ?tc ?yc + consecutiveHigher ?tc ?yc \<le> 3"
    by (rule counts_le_3)
  then have excl: "\<not> (2 \<le> consecutiveLower ?tc ?yc \<and> 2 \<le> consecutiveHigher ?tc ?yc)"
    by arith
  have "decideHigherFirst (consecutiveLower ?tc ?yc) (consecutiveHigher ?tc ?yc) ?tc =
        decide (consecutiveLower ?tc ?yc) (consecutiveHigher ?tc ?yc) ?tc"
    using excl by (rule decide_order)
  with b d le excl lower_higher_disjoint [of ?tc ?yc] show ?thesis
    unfolding Let_def
    by (intro exI [of _ b] conjI) simp_all
qed


subsection \<open>The scenario of the mock data\<close>

lemma mock_length: "length mockDailyMetrics = 13"
  by (simp add: mockDailyMetrics_def)

lemma mock_window: "window mockDailyMetrics = mockDailyMetrics"
  by (simp add: window_drop mock_length)

lemma mock_hrv:
  "present (map hrv mockDailyMetrics) = [45, 48, 46, 50, 47, 49, 48, 46, 51, 47, 42, 40, 38]"
  by (simp add: present_def mockDailyMetrics_def mk_def)

lemma mock_sleep:
  "present (map sleep mockDailyMetrics) =
     [7.5, 8.0, 7.8, 8.2, 7.9, 8.1, 8.0, 7.7, 8.3, 7.6, 7.2, 7.0, 6.8]"
  by (simp add: present_def mockDailyMetrics_def mk_def)

lemma mock_load:
  "present (map load mockDailyMetrics) =
     [12.5, 14.2, 13.8, 11.5, 15.1, 13.2, 14.0, 12.8, 11.0, 14.5, 16.0, 16.5, 17.0]"
  by (simp add: present_def mockDailyMetrics_def mk_def)

lemma mock_hrv_median:
  "statistical_median [45, 48, 46, 50, 47, 49, 48, 46, 51, 47, 42, 40, 38] = 47"
  by (simp add: statistical_median_def)

lemma mock_sleep_median:
  "statistical_median [7.5, 8.0, 7.8, 8.2, 7.9, 8.1, 8.0, 7.7, 8.3, 7.6, 7.2, 7.0, 6.8] = 7.8"
  by (simp add: statistical_median_def)

lemma mock_load_median:
  "statistical_median
     [12.5, 14.2, 13.8, 11.5, 15.1, 13.2, 14.0, 12.8, 11.0, 14.5, 16.0, 16.5, 17.0] = 14.0"
  by (simp add: statistical_median_def)

lemma mock_baseline:
  "calculateBaseline mockDailyMetrics =
     Inr \<lparr> base_hrv = 47, base_sleep = 7.8, base_load = 14.0 \<rparr>"
proof -
  have ne: "mockDailyMetrics \<noteq> []"
    using mock_length by auto
  show ?thesis
    unfolding calculateBaseline_Inr [OF ne] mock_window mock_hrv mock_sleep mock_load
      mock_hrv_median mock_sleep_median mock_load_median
    by (rule refl)
qed

lemma mock_today: "last mockDailyMetrics = mk ''2024-01-13'' 38 6.8 17.0"
  by (simp add: mockDailyMetrics_def)

lemma mock_yesterday:
  "mockDailyMetrics ! (length mockDailyMetrics - 2) = mk ''2024-01-12'' 40 7.0 16.5"
  by (simp add: mockDailyMetrics_def)

lemma mock_todayComparison:
  "compareDay (mk ''2024-01-13'' 38 6.8 17.0)
     \<lparr> base_hrv = 47, base_sleep = 7.8, base_load = 14.0 \<rparr> =
   \<lparr> cmp_hrv = Some Lower, cmp_sleep = Some Lower, cmp_load = Some Higher \<rparr>"
  by (simp add: compareDay_def mk_def compareToBaseline_Some defaultTolerancePercent_def)

lemma mock_yesterdayComparison:
  "compareDay (mk ''2024-01-12'' 40 7.0 16.5)
     \<lparr> base_hrv = 47, base_sleep = 7.8, base_load = 14.0 \<rparr> =
   \<lparr> cmp_hrv = Some Lower, cmp_sleep = Some Lower, cmp_load = Some Higher \<rparr>"
  by (simp add: compareDay_def mk_def compareToBaseline_Some defaultTolerancePercent_def)

lemma mock_lowerMetrics:
  "lowerMetrics \<lparr> cmp_hrv = Some Lower, cmp_sleep = Some Lower, cmp_load = Some Higher \<rparr>
     \<lparr> cmp_hrv = Some Lower, cmp_sleep = Some Lower, cmp_load = Some Higher \<rparr> = [HRV, SLEEP]"
  by (simp add: lowerMetrics_def metricsToCheck_def)

lemma mock_higherMetrics:
  "higherMetrics \<lparr> cmp_hrv = Some Lower, cmp_sleep = Some Lower, cmp_load = Some Higher \<rparr>
     \<lparr> cmp_hrv = Some Lower, cmp_sleep = Some Lower, cmp_load = Some Higher \<rparr> = [LOAD]"
  by (simp add: higherMetrics_def metricsToCheck_def)

lemma mock_decision:
  "determineDecisionPhase mockDailyMetrics =
     Inr \<lparr> phase = CONSIDER_ADJUSTMENT,
           comparison = \<lparr> cmp_hrv = Some Lower, cmp_sleep = Some Lower, cmp_load = Some Higher \<rparr>,
           reason = ''2 recovery signals have been outside baseline for 2 consecutive days.'' \<rparr>"
proof -
  have "2 \<le> length mockDailyMetrics"
    by (simp add: mock_length)
  from determineDecisionPhase_Inr [OF this] show ?thesis
    by (simp add: mock_baseline mock_today mock_yesterday decide_lower digits_small digits_Suc
        compareDay_def mk_def compareToBaseline_Some defaultTolerancePercent_def
        lowerMetrics_def higherMetrics_def metricsToCheck_def consecutiveLower_def
        consecutiveHigher_def)
qed

text \<open>
  Claim C6: on the thirteen records of the mock data the baseline is 47, 7.8 and 14.0;
  today and yesterday both classify as lower, lower, higher; the consecutive-lower count is
  2; and the decision is \<open>CONSIDER_ADJUSTMENT\<close> with the reason for 2 recovery signals.
\<close>

theorem mock_scenario:
  "calculateBaseline mockDailyMetrics =
     Inr \<lparr> base_hrv = 47, base_sleep = 7.8, base_load = 14.0 \<rparr> \<and>
   last mockDailyMetrics = mk ''2024-01-13'' 38 6.8 17.0 \<and>
   mockDailyMetrics ! (length mockDailyMetrics - 2) = mk ''2024-01-12'' 40 7.0 16.5 \<and>
   compareDay (last mockDailyMetrics) \<lparr> base_hrv = 47, base_sleep = 7.8, base_load = 14.0 \<rparr> =
     \<lparr> cmp_hrv = Some Lower, cmp_sleep = Some Lower, cmp_load = Some Higher \<rparr> \<and>
   compareDay (mockDailyMetrics ! (length mockDailyMetrics - 2))
       \<lparr> base_hrv = 47, base_sleep = 7.8, base_load = 14.0 \<rparr> =
     \<lparr> cmp_hrv = Some Lower, cmp_sleep = Some Lower, cmp_load = Some Higher \<rparr> \<and>
   consecutiveLower
       (compareDay (last mockDailyMetrics)
          \<lparr> base_hrv = 47, base_sleep = 7.8, base_load = 14.0 \<rparr>)
       (compareDay (mockDailyMetrics ! (length mockDailyMetrics - 2))
          \<lparr> base_hrv = 47, base_sleep = 7.8, base_load = 14.0 \<rparr>) = 2 \<and>
   determineDecisionPhase mockDailyMetrics =
     Inr \<lparr> phase = CONSIDER_ADJUSTMENT,
           comparison = \<lparr> cmp_hrv = Some Lower, cmp_sleep = Some Lower, cmp_load = Some Higher \<rparr>,
           reason = ''2 recovery signals have been outside baseline for 2 consecutive days.'' \<rparr>"
  by (simp add: mock_baseline mock_today mock_yesterday mock_decision
        compareDay_def mk_def compareToBaseline_Some defaultTolerancePercent_def
        lowerMetrics_def higherMetrics_def metricsToCheck_def consecutiveLower_def
        consecutiveHigher_def)

subsection \<open>The general properties at the mock data\<close>

theorem phase_and_reason_witness:
  "2 \<le> length mockDailyMetrics \<and>
   (\<exists>d. determineDecisionPhase mockDailyMetrics = Inr d \<and>
        phase d = CONSIDER_ADJUSTMENT \<and>
        reason d = ''2 recovery signals have been outside baseline for 2 consecutive days.'' \<and>
        comparison d =
          \<lparr> cmp_hrv = Some Lower, cmp_sleep = Some Lower, cmp_load = Some Higher \<rparr>)"
proof -
  have h: "2 \<le> length mockDailyMetrics"
    by (simp add: mock_length)
  from phase_and_reason [OF h] show ?thesis
    by (auto simp add: h mock_baseline mock_today mock_yesterday Let_def
        card_lower_verdict card_higher_verdict
        compareDay_def mk_def compareToBaseline_Some defaultTolerancePercent_def
        lowerMetrics_def higherMetrics_def metricsToCheck_def consecutiveLower_def
        consecutiveHigher_def)
qed


theorem trend_rule_witness:
  "2 \<le> length mockDailyMetrics \<and>
   (\<exists>b. calculateBaseline mockDailyMetrics = Inr b \<and>
        HRV \<in> set (lowerMetrics (compareDay (last mockDailyMetrics) b)
                     (compareDay (mockDailyMetrics ! (length mockDailyMetrics - 2)) b)))"
proof -
  have h: "2 \<le> length mockDailyMetrics"
    by (simp add: mock_length)
  from trend_rule [OF h] obtain b where b: "calculateBaseline mockDailyMetrics = Inr b"
    and p: "HRV \<in> set (lowerMetrics (compareDay (last mockDailyMetrics) b)
                          (compareDay (mockDailyMetrics ! (length mockDailyMetrics - 2)) b)) \<longleftrightarrow>
            verdict HRV (last mockDailyMetrics) b = Some Lower \<and>
            verdict HRV (mockDailyMetrics ! (length mockDailyMetrics - 2)) b = Some Lower"
    unfolding Let_def by blast
  from b have bv: "b = \<lparr> base_hrv = 47, base_sleep = 7.8, base_load = 14.0 \<rparr>"
    by (simp add: mock_baseline)
  have "verdict HRV (last mockDailyMetrics) b = Some Lower"
    by (simp add: bv mock_today mk_def verdict_def compareToBaseline_Some)
  moreover have "verdict HRV (mockDailyMetrics ! (length mockDailyMetrics - 2)) b = Some Lower"
    by (simp add: bv mock_yesterday mk_def verdict_def compareToBaseline_Some)
  ultimately have "HRV \<in> set (lowerMetrics (compareDay (last mockDailyMetrics) b)
                     (compareDay (mockDailyMetrics ! (length mockDailyMetrics - 2)) b))"
    using p by blast
  with h b show ?thesis
    by blast
qed

theorem counts_exclusive_witness:
  "2 \<le> length mockDailyMetrics \<and>
   consecutiveLower \<lparr> cmp_hrv = Some Lower, cmp_sleep = Some Lower, cmp_load = Some Higher \<rparr>
     \<lparr> cmp_hrv = Some Lower, cmp_sleep = Some Lower, cmp_load = Some Higher \<rparr> +
   consecutiveHigher \<lparr> cmp_hrv = Some Lower, cmp_sleep = Some Lower, cmp_load = Some Higher \<rparr>
     \<lparr> cmp_hrv = Some Lower, cmp_sleep = Some Lower, cmp_load = Some Higher \<rparr> \<le> 3"
proof -
  have h: "2 \<le> length mockDailyMetrics"
    by (simp add: mock_length)
  from counts_exclusive [OF h] show ?thesis
    by (simp add: h mock_baseline mock_today mock_yesterday Let_def
        compareDay_def mk_def compareToBaseline_Some defaultTolerancePercent_def
        lowerMetrics_def higherMetrics_def metricsToCheck_def consecutiveLower_def
        consecutiveHigher_def)
qed

end
